theory Spec2Isabelle
  imports Complex_Main "HOL-Library.AList"
begin

section \<open>Common data: exceptions, strings, dictionaries\<close>

text \<open>
  The validation engine (\<^verbatim>\<open>ultralytics/yolo/engine/validator.py\<close>) and the multi-task
  predictor (\<^verbatim>\<open>ultralytics/yolo/v8/DecSeg/predict.py\<close>) are Python. Every \<^verbatim>\<open>raise\<close> and every
  failing subscript of the source is a value \<open>Inl e\<close> of the model; a normal return is
  \<open>Inr v\<close>.
\<close>

datatype error =
    NotImplementedError string
  | IndexError
  | KeyError string
  | ValueError
  | ZeroDivisionError
  | RuntimeError
  | TypeError
  | ExternalError string

text \<open>Python's \<^verbatim>\<open>sub in s\<close> on strings: \<^verbatim>\<open>sub\<close> occurs as a contiguous substring of \<^verbatim>\<open>s\<close>.\<close>

fun starts_with :: "string \<Rightarrow> string \<Rightarrow> bool" where
  "starts_with [] s = True"
| "starts_with (c # cs) [] = False"
| "starts_with (c # cs) (d # ds) = (c = d \<and> starts_with cs ds)"

fun in_str :: "string \<Rightarrow> string \<Rightarrow> bool" where
  "in_str sub [] = (sub = [])"
| "in_str sub (c # cs) = (starts_with sub (c # cs) \<or> in_str sub cs)"

text \<open>
  A Python \<^verbatim>\<open>dict\<close> keeps insertion order: an association list with distinct keys, where
  storing under an existing key keeps the key's position (\<open>AList.update\<close>).
  \<^verbatim>\<open>{**a, **b}\<close> stores the items of \<^verbatim>\<open>b\<close> into a copy of \<^verbatim>\<open>a\<close>, one after the other.
\<close>

type_synonym ('k, 'v) dict = "('k \<times> 'v) list"

definition dict_get :: "('k, 'v) dict \<Rightarrow> 'k \<Rightarrow> ('k \<Rightarrow> error) \<Rightarrow> error + 'v" where
  "dict_get d k err = (case map_of d k of None \<Rightarrow> Inl (err k) | Some v \<Rightarrow> Inr v)"

definition dict_merge :: "('k, 'v) dict \<Rightarrow> ('k, 'v) dict \<Rightarrow> ('k, 'v) dict" where
  "dict_merge a b = foldl (\<lambda>d (k, v). AList.update k v d) a b"

text \<open>Python's \<^verbatim>\<open>xs[i]\<close> for an index that is never negative.\<close>

definition list_get :: "'a list \<Rightarrow> nat \<Rightarrow> error + 'a" where
  "list_get xs i = (if i < length xs then Inr (xs ! i) else Inl IndexError)"

section \<open>The validator: \<^verbatim>\<open>BaseValidator\<close>\<close>

subsection \<open>Default hooks\<close>

text \<open>
  \<^verbatim>\<open>get_dataloader\<close> and \<^verbatim>\<open>build_dataset\<close> raise; \<^verbatim>\<open>preprocess\<close> and \<^verbatim>\<open>postprocess\<close> return
  their argument.
\<close>

definition get_dataloader :: "'path \<Rightarrow> int \<Rightarrow> error + 'loader" where
  "get_dataloader dataset_path batch_size =
     Inl (NotImplementedError ''get_dataloader function not implemented for this validator'')"

definition build_dataset :: "'path \<Rightarrow> error + 'dataset" where
  "build_dataset img_path =
     Inl (NotImplementedError ''build_dataset function not implemented in validator'')"

definition preprocess :: "'batch \<Rightarrow> error + 'batch" where
  "preprocess batch = Inr batch"

definition postprocess :: "'preds \<Rightarrow> error + 'preds" where
  "postprocess preds = Inr preds"

subsection \<open>Per-task segmentation structures built at the start of a multi-task run\<close>

text \<open>
  Modelled from the spec: the classes \<^verbatim>\<open>SegmentationMetric\<close> and \<^verbatim>\<open>AverageMeter\<close> of
  \<^verbatim>\<open>ultralytics.yolo.utils.metrics\<close> are not part of the sources at hand. The first is the
  running segmentation-metric structure, of which the engine only fixes the constructor
  argument (the class count); the second is a running statistic exposing its mean as
  \<^verbatim>\<open>avg\<close>, created with every field zero.
\<close>

datatype SegmentationMetric = SegmentationMetric (numClass: int)

record AverageMeter =
  avg :: real
  am_sum :: real
  am_count :: real

definition AverageMeter_new :: AverageMeter where
  "AverageMeter_new = \<lparr>avg = 0, am_sum = 0, am_count = 0\<rparr>"

text \<open>
  \<^verbatim>\<open>{name: SegmentationMetric(self.data['nc_list'][count] + 1)
     for count, name in enumerate(self.data['labels_list']) if 'seg' in name}\<close>
  The subscript \<^verbatim>\<open>nc_list[count]\<close> is only evaluated for a name that passes the filter.
\<close>

fun seg_metrics_comp ::
  "int list \<Rightarrow> (nat \<times> string) list \<Rightarrow> (string, SegmentationMetric) dict
     \<Rightarrow> error + (string, SegmentationMetric) dict" where
  "seg_metrics_comp nc_list [] acc = Inr acc"
| "seg_metrics_comp nc_list ((count, name) # rest) acc =
     (if in_str ''seg'' name
      then (case list_get nc_list count of
              Inl e \<Rightarrow> Inl e
            | Inr nc \<Rightarrow>
                seg_metrics_comp nc_list rest
                  (AList.update name (SegmentationMetric (nc + 1)) acc))
      else seg_metrics_comp nc_list rest acc)"

definition init_seg_metrics ::
  "int list \<Rightarrow> string list \<Rightarrow> error + (string, SegmentationMetric) dict" where
  "init_seg_metrics nc_list labels_list =
     seg_metrics_comp nc_list (enumerate 0 labels_list) []"

text \<open>
  \<^verbatim>\<open>{name: {'pixacc': AverageMeter(), 'subacc': AverageMeter(), 'IoU': AverageMeter(),
            'mIoU': AverageMeter()}
     for count, name in enumerate(self.data['labels_list']) if 'seg' in name}\<close>
\<close>

definition seg_result_entry :: "(string, AverageMeter) dict" where
  "seg_result_entry =
     [(''pixacc'', AverageMeter_new), (''subacc'', AverageMeter_new),
      (''IoU'', AverageMeter_new), (''mIoU'', AverageMeter_new)]"

fun seg_result_comp ::
  "(nat \<times> string) list \<Rightarrow> (string, (string, AverageMeter) dict) dict
     \<Rightarrow> (string, (string, AverageMeter) dict) dict" where
  "seg_result_comp [] acc = acc"
| "seg_result_comp ((count, name) # rest) acc =
     (if in_str ''seg'' name
      then seg_result_comp rest (AList.update name seg_result_entry acc)
      else seg_result_comp rest acc)"

definition init_seg_result :: "string list \<Rightarrow> (string, (string, AverageMeter) dict) dict" where
  "init_seg_result labels_list = seg_result_comp (enumerate 0 labels_list) []"

subsection \<open>The multi-task dispatch of one batch\<close>

text \<open>
  The post-processing loop runs over the model's raw outputs and appends a slice for a
  detection name, else for a segmentation name, and nothing otherwise:
  \<^verbatim>\<open>
  preds_list_post = []
  for i, preds in enumerate(preds_list):
      if 'det' in self.data['labels_list'][i]:
          preds = self.postprocess_det(preds)
          preds_list_post.append(preds)
      elif 'seg' in self.data['labels_list'][i]:
          preds = self.postprocess_seg(preds,i)
          preds_list_post.append(preds)
  \<close>
  The two post-processors of the validator subclass are parameters.
\<close>

fun postprocess_loop ::
  "('raw \<Rightarrow> 'p) \<Rightarrow> ('raw \<Rightarrow> nat \<Rightarrow> 'p) \<Rightarrow> string list \<Rightarrow> (nat \<times> 'raw) list \<Rightarrow> 'p list
     \<Rightarrow> error + 'p list" where
  "postprocess_loop postprocess_det postprocess_seg labels_list [] preds_list_post =
     Inr preds_list_post"
| "postprocess_loop postprocess_det postprocess_seg labels_list ((i, preds) # rest)
       preds_list_post =
     (case list_get labels_list i of
        Inl e \<Rightarrow> Inl e
      | Inr name \<Rightarrow>
          if in_str ''det'' name
          then postprocess_loop postprocess_det postprocess_seg labels_list rest
                 (preds_list_post @ [postprocess_det preds])
          else if in_str ''seg'' name
          then postprocess_loop postprocess_det postprocess_seg labels_list rest
                 (preds_list_post @ [postprocess_seg preds i])
          else postprocess_loop postprocess_det postprocess_seg labels_list rest
                 preds_list_post)"

definition postprocess_multi ::
  "('raw \<Rightarrow> 'p) \<Rightarrow> ('raw \<Rightarrow> nat \<Rightarrow> 'p) \<Rightarrow> string list \<Rightarrow> 'raw list \<Rightarrow> error + 'p list" where
  "postprocess_multi postprocess_det postprocess_seg labels_list preds_list =
     postprocess_loop postprocess_det postprocess_seg labels_list (enumerate 0 preds_list) []"

text \<open>
  The metric update runs over the task names and reads the slice at the task's index:
  \<^verbatim>\<open>
  for i,label_name in enumerate(self.data['labels_list']):
      if 'det' in label_name:
          self.update_metrics_det(preds_list_post[i], batch[i], label_name)
      elif 'seg' in label_name:
          self.update_metrics_seg(preds_list_post[i], batch[i], label_name)
  \<close>
  The updates themselves belong to the subclass; the model records which update is called
  with which slice, up to the end of the loop or to the subscript that raises.
\<close>

datatype ('p, 'b) metric_update =
    Update_det 'p 'b string
  | Update_seg 'p 'b string

fun update_loop ::
  "'p list \<Rightarrow> 'b list \<Rightarrow> (nat \<times> string) list \<Rightarrow> ('p, 'b) metric_update list
     \<Rightarrow> ('p, 'b) metric_update list \<times> error option" where
  "update_loop preds_list_post batch [] calls = (calls, None)"
| "update_loop preds_list_post batch ((i, label_name) # rest) calls =
     (if in_str ''det'' label_name
      then (case list_get preds_list_post i of
              Inl e \<Rightarrow> (calls, Some e)
            | Inr p \<Rightarrow>
                (case list_get batch i of
                   Inl e \<Rightarrow> (calls, Some e)
                 | Inr b \<Rightarrow>
                     update_loop preds_list_post batch rest
                       (calls @ [Update_det p b label_name])))
      else if in_str ''seg'' label_name
      then (case list_get preds_list_post i of
              Inl e \<Rightarrow> (calls, Some e)
            | Inr p \<Rightarrow>
                (case list_get batch i of
                   Inl e \<Rightarrow> (calls, Some e)
                 | Inr b \<Rightarrow>
                     update_loop preds_list_post batch rest
                       (calls @ [Update_seg p b label_name])))
      else update_loop preds_list_post batch rest calls)"

definition update_metrics_multi ::
  "string list \<Rightarrow> 'p list \<Rightarrow> 'b list \<Rightarrow> ('p, 'b) metric_update list \<times> error option" where
  "update_metrics_multi labels_list preds_list_post batch =
     update_loop preds_list_post batch (enumerate 0 labels_list) []"

subsection \<open>Stage timers\<close>

text \<open>
  Modelled from the spec: the class \<^verbatim>\<open>Profile\<close> of \<^verbatim>\<open>ultralytics.yolo.utils.ops\<close> is not part
  of the sources at hand. It is a timer whose attribute \<^verbatim>\<open>t\<close> holds the accumulated
  duration in seconds; leaving a \<^verbatim>\<open>with\<close> block adds the block's duration to it.
\<close>

record Profile =
  prof_t :: real

definition Profile_new :: Profile where
  "Profile_new = \<lparr>prof_t = 0\<rparr>"

definition Profile_exit :: "Profile \<Rightarrow> real \<Rightarrow> Profile" where
  "Profile_exit p duration = p\<lparr>prof_t := prof_t p + duration\<rparr>"

text \<open>
  \<^verbatim>\<open>dt = Profile(), Profile(), Profile(), Profile()\<close>; every batch runs the four
  \<^verbatim>\<open>with dt[k]:\<close> blocks once, here with the four durations of the batch given.
\<close>

type_synonym timers = "Profile \<times> Profile \<times> Profile \<times> Profile"

definition dt_new :: timers where
  "dt_new = (Profile_new, Profile_new, Profile_new, Profile_new)"

fun time_batches :: "timers \<Rightarrow> (real \<times> real \<times> real \<times> real) list \<Rightarrow> timers" where
  "time_batches dt [] = dt"
| "time_batches (p0, p1, p2, p3) ((d0, d1, d2, d3) # rest) =
     time_batches (Profile_exit p0 d0, Profile_exit p1 d1, Profile_exit p2 d2, Profile_exit p3 d3)
       rest"

text \<open>Python's \<^verbatim>\<open>/\<close> with a float on the left and an \<^verbatim>\<open>int\<close> length on the right.\<close>

definition py_div :: "real \<Rightarrow> nat \<Rightarrow> error + real" where
  "py_div x n = (if n = 0 then Inl ZeroDivisionError else Inr (x / real n))"

text \<open>The keys of \<^verbatim>\<open>self.speed\<close>, in the order \<^verbatim>\<open>__init__\<close> inserts them.\<close>

definition speed_keys :: "string list" where
  "speed_keys = [''preprocess'', ''inference'', ''loss'', ''postprocess'']"

text \<open>
  Multi-task: \<^verbatim>\<open>x.t / len(self.dataloader.dataset) * 1E3 / len(self.data['labels_list'])\<close>;
  otherwise \<^verbatim>\<open>x.t / len(self.dataloader.dataset) * 1E3\<close>.
\<close>

definition speed_of :: "bool \<Rightarrow> nat \<Rightarrow> nat \<Rightarrow> Profile \<Rightarrow> error + real" where
  "speed_of multi n_images n_tasks x =
     (case py_div (prof_t x) n_images of
        Inl e \<Rightarrow> Inl e
      | Inr per_image \<Rightarrow>
          if multi then py_div (per_image * 1000) n_tasks else Inr (per_image * 1000))"

fun map_raise :: "('a \<Rightarrow> error + 'b) \<Rightarrow> 'a list \<Rightarrow> error + 'b list" where
  "map_raise f [] = Inr []"
| "map_raise f (x # xs) =
     (case f x of
        Inl e \<Rightarrow> Inl e
      | Inr y \<Rightarrow> (case map_raise f xs of Inl e \<Rightarrow> Inl e | Inr ys \<Rightarrow> Inr (y # ys)))"

text \<open>\<^verbatim>\<open>self.speed = dict(zip(self.speed.keys(), (... for x in dt)))\<close>\<close>

definition finalize_speed :: "bool \<Rightarrow> nat \<Rightarrow> nat \<Rightarrow> timers \<Rightarrow> error + (string, real) dict" where
  "finalize_speed multi n_images n_tasks dt =
     (case dt of (p0, p1, p2, p3) \<Rightarrow>
        (case map_raise (speed_of multi n_images n_tasks) [p0, p1, p2, p3] of
           Inl e \<Rightarrow> Inl e
         | Inr vs \<Rightarrow> Inr (zip speed_keys vs)))"

subsection \<open>The JSON export list\<close>

text \<open>
  Python's \<^verbatim>\<open>round(x, ndigits)\<close> on a float rounds to the nearest multiple of
  \<open>10\<^sup>-\<^sup>n\<close>, a tie to the even one. Floats are idealised as reals here: the binary
  representation error of the result is not modelled.
\<close>

definition py_round :: "real \<Rightarrow> nat \<Rightarrow> real" where
  "py_round x ndigits =
     (let y = x * 10 ^ ndigits; f = \<lfloor>y\<rfloor>; d = y - of_int f
      in (if d < 1 / 2 then of_int f
          else if 1 / 2 < d then of_int (f + 1)
          else if even f then of_int f else of_int (f + 1)) / 10 ^ ndigits)"

text \<open>Python's \<^verbatim>\<open>int(x)\<close> on a float truncates towards zero.\<close>

definition py_int :: "real \<Rightarrow> int" where
  "py_int x = (if 0 \<le> x then \<lfloor>x\<rfloor> else \<lceil>x\<rceil>)"

text \<open>
  The subscript \<^verbatim>\<open>class_map[k]\<close> with a signed \<^verbatim>\<open>k\<close>: from \<open>-len\<close> up to \<open>-1\<close> it reads
  from the back of the list, from \<open>0\<close> up to \<open>len - 1\<close> from the front, and it raises
  elsewhere.
\<close>

definition list_get_int :: "'a list \<Rightarrow> int \<Rightarrow> error + 'a" where
  "list_get_int xs k =
     (if 0 \<le> k \<and> k < int (length xs) then Inr (xs ! nat k)
      else if k < 0 \<and> - int (length xs) \<le> k then Inr (xs ! nat (int (length xs) + k))
      else Inl IndexError)"

text \<open>
  \<^verbatim>\<open>image_id = int(stem) if stem.isnumeric() else stem\<close>, for a stem of ASCII characters:
  it is numeric when it is not empty and all its characters are decimal digits.
\<close>

datatype image_id = Id_int int | Id_str string

definition isnumeric :: "string \<Rightarrow> bool" where
  "isnumeric s = (s \<noteq> [] \<and> list_all (\<lambda>c. c \<in> set ''0123456789'') s)"

definition int_of_str :: "string \<Rightarrow> int" where
  "int_of_str s = foldl (\<lambda>a c. 10 * a + (int (of_char c) - 48)) 0 s"

record json_record =
  image_id :: image_id
  category_id :: int
  bbox :: "real list"
  score :: real

text \<open>
  \<^verbatim>\<open>box[:, :2] -= box[:, 2:] / 2\<close> on one row \<^verbatim>\<open>[x, y, w, h]\<close> of the \<open>n \<times> 4\<close> matrix
  that \<^verbatim>\<open>ops.xyxy2xywh\<close> returns.
\<close>

fun to_top_left :: "real list \<Rightarrow> real list" where
  "to_top_left [x, y, w, h] = [x - w / 2, y - h / 2, w, h]"
| "to_top_left b = b"

text \<open>
  One iteration of \<^verbatim>\<open>for p, b in zip(predn.tolist(), box.tolist())\<close>: the record appended
  for the row \<^verbatim>\<open>p\<close> of \<^verbatim>\<open>predn\<close> and the row \<^verbatim>\<open>b\<close> of \<^verbatim>\<open>box\<close>. The subscripts are evaluated
  in the order of the dictionary display: \<^verbatim>\<open>p[5]\<close>, \<^verbatim>\<open>class_map[...]\<close>, then \<^verbatim>\<open>p[4]\<close>.
\<close>

definition json_row :: "int list \<Rightarrow> image_id \<Rightarrow> real list \<times> real list \<Rightarrow> error + json_record" where
  "json_row class_map iid pb =
     (case pb of (p, b) \<Rightarrow>
        (case list_get p 5 of
           Inl e \<Rightarrow> Inl e
         | Inr c \<Rightarrow>
             (case list_get_int class_map (py_int c) of
                Inl e \<Rightarrow> Inl e
              | Inr cat \<Rightarrow>
                  (case list_get p 4 of
                     Inl e \<Rightarrow> Inl e
                   | Inr conf \<Rightarrow>
                       Inr \<lparr>image_id = iid, category_id = cat,
                            bbox = map (\<lambda>x. py_round x 3) b, score = py_round conf 5\<rparr>))))"

text \<open>
  \<^verbatim>\<open>pred_to_json(self, predn, filename)\<close>. The stem of the file name (\<^verbatim>\<open>pathlib\<close>) and the
  row-wise box conversion \<^verbatim>\<open>ops.xyxy2xywh\<close> are parameters. A row that raises leaves the
  records of the rows before it in the list; the model returns the error alone, since the
  run ends there.
\<close>

definition pred_to_json ::
  "(string \<Rightarrow> string) \<Rightarrow> (real list \<Rightarrow> real list) \<Rightarrow> int list \<Rightarrow> json_record list
     \<Rightarrow> real list list \<Rightarrow> string \<Rightarrow> error + json_record list" where
  "pred_to_json stem_of xyxy2xywh class_map jdict predn filename =
     (let stem = stem_of filename;
          iid = (if isnumeric stem then Id_int (int_of_str stem) else Id_str stem);
          box = map (\<lambda>row. to_top_left (xyxy2xywh (take 4 row))) predn
      in case map_raise (json_row class_map iid) (zip predn box) of
           Inl e \<Rightarrow> Inl e
         | Inr recs \<Rightarrow> Inr (jdict @ recs))"



subsection \<open>What a run returns\<close>

text \<open>
  \<^verbatim>\<open>get_stats()\<close> belongs to the subclass. In a multi-task run it yields a sequence with
  one mapping per task, otherwise one mapping; Python does not type it, so both shapes are
  values of one type and the operations that need the other shape raise.
\<close>

type_synonym stats_dict = "(string, real) dict"

datatype stats = Stats_list "stats_dict list" | Stats_dict stats_dict

text \<open>\<^verbatim>\<open>stats[i]\<close>: an index into a sequence, a key (that no mapping of names holds) otherwise.\<close>

fun stats_item :: "stats \<Rightarrow> nat \<Rightarrow> error + stats_dict" where
  "stats_item (Stats_list l) i = list_get l i"
| "stats_item (Stats_dict d) i = Inl (KeyError [])"

text \<open>\<^verbatim>\<open>{k: round(float(v), 5) for k, v in results.items()}\<close>\<close>

definition round_items :: "stats_dict \<Rightarrow> stats_dict" where
  "round_items results = map (\<lambda>(k, v). (k, py_round v 5)) results"

text \<open>
  The body of the \<^verbatim>\<open>try\<close> of the multi-task training branch, for the task \<^verbatim>\<open>i\<close>:
  \<^verbatim>\<open>
  results = {**stats[i], **trainer.label_loss_items_val(self.loss[i].cpu() / len(self.dataloader),
                                                        prefix='val',task=label_name)}
  results_list.append({k: round(float(v), 5) for k, v in results.items()})
  \<close>
  The trainer is not part of the sources at hand: \<open>label_loss_items_val i label_name\<close> stands
  for the value of the whole second operand, which may raise.
\<close>

definition try_merge ::
  "stats \<Rightarrow> (nat \<Rightarrow> string \<Rightarrow> error + stats_dict) \<Rightarrow> nat \<Rightarrow> string \<Rightarrow> error + stats_dict" where
  "try_merge stats label_loss_items_val i label_name =
     (case stats_item stats i of
        Inl e \<Rightarrow> Inl e
      | Inr s \<Rightarrow>
          (case label_loss_items_val i label_name of
             Inl e \<Rightarrow> Inl e
           | Inr l \<Rightarrow> Inr (round_items (dict_merge s l))))"

text \<open>
  The handler of the bare \<^verbatim>\<open>except:\<close>:
  \<^verbatim>\<open>
  key_values = [(key, value.avg) for key, value in self.seg_result[label_name].items()]
  result = key_values[2][1]+key_values[3][1]
  dic = {'fitness':result}
  results_list.append(dic)
  \<close>
  An exception raised here is not caught.
\<close>

definition fitness_fallback ::
  "(string, (string, AverageMeter) dict) dict \<Rightarrow> string \<Rightarrow> error + stats_dict" where
  "fitness_fallback seg_result label_name =
     (case dict_get seg_result label_name KeyError of
        Inl e \<Rightarrow> Inl e
      | Inr meters \<Rightarrow>
          (let key_values = map (\<lambda>(key, value). (key, avg value)) meters
           in case list_get key_values 2 of
                Inl e \<Rightarrow> Inl e
              | Inr kv2 \<Rightarrow>
                  (case list_get key_values 3 of
                     Inl e \<Rightarrow> Inl e
                   | Inr kv3 \<Rightarrow> Inr [(''fitness'', snd kv2 + snd kv3)])))"

definition task_results ::
  "stats \<Rightarrow> (nat \<Rightarrow> string \<Rightarrow> error + stats_dict) \<Rightarrow> (string, (string, AverageMeter) dict) dict
     \<Rightarrow> nat \<Rightarrow> string \<Rightarrow> error + stats_dict" where
  "task_results stats label_loss_items_val seg_result i label_name =
     (case try_merge stats label_loss_items_val i label_name of
        Inr results \<Rightarrow> Inr results
      | Inl e \<Rightarrow> fitness_fallback seg_result label_name)"

fun results_loop ::
  "stats \<Rightarrow> (nat \<Rightarrow> string \<Rightarrow> error + stats_dict) \<Rightarrow> (string, (string, AverageMeter) dict) dict
     \<Rightarrow> (nat \<times> string) list \<Rightarrow> stats_dict list \<Rightarrow> error + stats_dict list" where
  "results_loop stats label_loss_items_val seg_result [] results_list = Inr results_list"
| "results_loop stats label_loss_items_val seg_result ((i, label_name) # rest) results_list =
     (case task_results stats label_loss_items_val seg_result i label_name of
        Inl e \<Rightarrow> Inl e
      | Inr d \<Rightarrow>
          results_loop stats label_loss_items_val seg_result rest (results_list @ [d]))"

definition finalize_multi_training ::
  "string list \<Rightarrow> stats \<Rightarrow> (nat \<Rightarrow> string \<Rightarrow> error + stats_dict)
     \<Rightarrow> (string, (string, AverageMeter) dict) dict \<Rightarrow> error + stats_dict list" where
  "finalize_multi_training labels_list stats label_loss_items_val seg_result =
     results_loop stats label_loss_items_val seg_result (enumerate 0 labels_list) []"

text \<open>
  Single-task training:
  \<^verbatim>\<open>
  results = {**stats, **trainer.label_loss_items(self.loss.cpu() / len(self.dataloader), prefix='val')}
  return {k: round(float(v), 5) for k, v in results.items()}
  \<close>
  \<^verbatim>\<open>**stats\<close> is evaluated first and needs a mapping.
\<close>

definition finalize_single_training :: "stats \<Rightarrow> error + stats_dict \<Rightarrow> error + stats_dict" where
  "finalize_single_training stats label_loss_items =
     (case stats of
        Stats_list l \<Rightarrow> Inl TypeError
      | Stats_dict s \<Rightarrow>
          (case label_loss_items of
             Inl e \<Rightarrow> Inl e
           | Inr l \<Rightarrow> Inr (round_items (dict_merge s l))))"

text \<open>
  Standalone mode, the same text in the multi-task and in the single-task branch:
  \<^verbatim>\<open>
  LOGGER.info('Speed: ...' % tuple(self.speed.values()))
  if self.args.save_json and self.jdict:
      with open(str(self.save_dir / 'predictions.json'), 'w') as f:
          LOGGER.info(f'Saving {f.name}...')
          json.dump(self.jdict, f)  # flatten and save
      stats = self.eval_json(stats)  # update stats
  if self.args.plots or self.args.save_json:
      LOGGER.info(f"Results saved to {colorstr('bold', self.save_dir)}")
  return stats
  \<close>
  The effects are a trace of events, kept also when \<^verbatim>\<open>eval_json\<close> raises after the file
  was written. \<^verbatim>\<open>eval_json\<close> is a hook of the subclass.
\<close>

datatype event =
    Log_speed
  | Open_write string
  | Log_saving string
  | Json_dump string "json_record list"
  | Log_results_saved string

definition predictions_path :: "string \<Rightarrow> string" where
  "predictions_path save_dir = save_dir @ ''/predictions.json''"

definition finalize_standalone ::
  "bool \<Rightarrow> bool \<Rightarrow> string \<Rightarrow> json_record list \<Rightarrow> ('s \<Rightarrow> error + 's) \<Rightarrow> 's
     \<Rightarrow> event list \<times> (error + 's)" where
  "finalize_standalone save_json plots save_dir jdict eval_json stats =
     (let saved = (if plots \<or> save_json then [Log_results_saved save_dir] else [])
      in if save_json \<and> jdict \<noteq> []
         then (let f = predictions_path save_dir;
                   written = [Log_speed, Open_write f, Log_saving f, Json_dump f jdict]
               in case eval_json stats of
                    Inl e \<Rightarrow> (written, Inl e)
                  | Inr stats' \<Rightarrow> (written @ saved, Inr stats'))
         else ([Log_speed] @ saved, Inr stats))"

text \<open>
  The end of \<^verbatim>\<open>__call__\<close>, from \<^verbatim>\<open>if self.args.task == 'multi':\<close> on. The configuration
  fields the branch reads are a record.
\<close>

record args =
  task :: string
  save_json :: bool
  plots :: bool

datatype ret =
    Ret_results_list "stats_dict list"
  | Ret_results stats_dict
  | Ret_stats stats

definition lift_ret :: "('a \<Rightarrow> ret) \<Rightarrow> error + 'a \<Rightarrow> error + ret" where
  "lift_ret c r = (case r of Inl e \<Rightarrow> Inl e | Inr v \<Rightarrow> Inr (c v))"

definition finalize ::
  "args \<Rightarrow> bool \<Rightarrow> string list \<Rightarrow> string \<Rightarrow> stats
     \<Rightarrow> (nat \<Rightarrow> string \<Rightarrow> error + stats_dict) \<Rightarrow> error + stats_dict
     \<Rightarrow> (string, (string, AverageMeter) dict) dict \<Rightarrow> json_record list
     \<Rightarrow> (stats \<Rightarrow> error + stats) \<Rightarrow> event list \<times> (error + ret)" where
  "finalize a training labels_list save_dir stats label_loss_items_val label_loss_items
       seg_result jdict eval_json =
     (if task a = ''multi''
      then (if training
            then ([], lift_ret Ret_results_list
                        (finalize_multi_training labels_list stats label_loss_items_val
                           seg_result))
            else (case finalize_standalone (save_json a) (plots a) save_dir jdict eval_json
                         stats of
                    (evs, r) \<Rightarrow> (evs, lift_ret Ret_stats r)))
      else (if training
            then ([], lift_ret Ret_results (finalize_single_training stats label_loss_items))
            else (case finalize_standalone (save_json a) (plots a) save_dir jdict eval_json
                         stats of
                    (evs, r) \<Rightarrow> (evs, lift_ret Ret_stats r))))"



section \<open>The predictor: \<^verbatim>\<open>MultiPredictor\<close>\<close>

subsection \<open>Arrays\<close>

text \<open>
  A tensor is its shape and its elements by index. The network's output for a batch is
  four-dimensional (image, class, row, column); the result of the reduction over the
  class dimension is three-dimensional. Floats are idealised as reals. An original image
  (a \<^verbatim>\<open>numpy\<close> array or a tensor) is its shape and its data.
\<close>

record 'a tensor4 =
  dims4 :: "nat \<times> nat \<times> nat \<times> nat"
  elem4 :: "nat \<Rightarrow> nat \<Rightarrow> nat \<Rightarrow> nat \<Rightarrow> 'a"

record 'a tensor3 =
  dims3 :: "nat \<times> nat \<times> nat"
  elem3 :: "nat \<Rightarrow> nat \<Rightarrow> nat \<Rightarrow> 'a"

record image =
  shape :: "nat list"
  pixels :: "nat list"

subsection \<open>Segmentation\<close>

text \<open>
  Modelled from the spec: \<^verbatim>\<open>self.sigmoid\<close> is an attribute of the predictor's base class
  (\<^verbatim>\<open>ultralytics.yolo.engine.predictor_multi\<close>), which is not part of the sources at hand.
  The spec names it: the logistic sigmoid, applied to every element.
\<close>

definition sigmoid :: "real \<Rightarrow> real" where
  "sigmoid x = 1 / (1 + exp (- x))"

definition sigmoid_tensor :: "real tensor4 \<Rightarrow> real tensor4" where
  "sigmoid_tensor preds =
     \<lparr>dims4 = dims4 preds, elem4 = (\<lambda>n c y x. sigmoid (elem4 preds n c y x))\<rparr>"

text \<open>
  \<^verbatim>\<open>torch.max(preds, 1)\<close> returns the maxima along the class dimension and their indices,
  the first index where a maximum occurs more than once; it raises on a class dimension of
  size zero. The scan keeps the best value and its index and replaces them on a strictly
  greater value.
\<close>

fun max_from :: "nat \<Rightarrow> 'a::linorder \<times> nat \<Rightarrow> 'a list \<Rightarrow> 'a \<times> nat" where
  "max_from i best [] = best"
| "max_from i (best_v, best_i) (v # vs) =
     (if best_v < v then max_from (Suc i) (v, i) vs
      else max_from (Suc i) (best_v, best_i) vs)"

definition max_over_classes :: "'a::linorder tensor4 \<Rightarrow> nat \<Rightarrow> nat \<Rightarrow> nat \<Rightarrow> 'a \<times> nat" where
  "max_over_classes preds n y x =
     (case dims4 preds of (N, C, H, W) \<Rightarrow>
        max_from 1 (elem4 preds n 0 y x, 0) (map (\<lambda>c. elem4 preds n c y x) [1..<C]))"

definition torch_max_dim1 :: "'a::linorder tensor4 \<Rightarrow> error + ('a tensor3 \<times> nat tensor3)" where
  "torch_max_dim1 preds =
     (case dims4 preds of (N, C, H, W) \<Rightarrow>
        if C = 0 then Inl IndexError
        else Inr (\<lparr>dims3 = (N, H, W), elem3 = (\<lambda>n y x. fst (max_over_classes preds n y x))\<rparr>,
                  \<lparr>dims3 = (N, H, W), elem3 = (\<lambda>n y x. snd (max_over_classes preds n y x))\<rparr>))"

text \<open>
  \<^verbatim>\<open>
  def postprocess_seg(self, preds):
      img_array = self.batch[1][0]
      orig_h, orig_w = img_array.shape[:2]# get original resolution
      preds = torch.nn.functional.interpolate(preds, size=(orig_h, orig_w), mode='bilinear',
                                              align_corners=False)
      preds = self.sigmoid(preds)
      _, preds = torch.max(preds, 1)
      return preds
  \<close>
  \<^verbatim>\<open>self.batch\<close> holds the paths and the original images of the batch. The library's
  \<^verbatim>\<open>interpolate\<close> is a parameter that receives the size, the mode and the corner flag of the
  call.
\<close>

datatype paths = Path_list "string list" | Path_single string

type_synonym interpolate = "real tensor4 \<Rightarrow> nat \<times> nat \<Rightarrow> string \<Rightarrow> bool \<Rightarrow> real tensor4"

definition orig_size :: "paths \<times> image list \<Rightarrow> error + nat \<times> nat" where
  "orig_size batch =
     (case list_get (snd batch) 0 of
        Inl e \<Rightarrow> Inl e
      | Inr img_array \<Rightarrow>
          (case take 2 (shape img_array) of
             [orig_h, orig_w] \<Rightarrow> Inr (orig_h, orig_w)
           | _ \<Rightarrow> Inl ValueError))"

definition postprocess_seg ::
  "interpolate \<Rightarrow> paths \<times> image list \<Rightarrow> real tensor4 \<Rightarrow> error + nat tensor3" where
  "postprocess_seg interpolate batch preds =
     (case orig_size batch of
        Inl e \<Rightarrow> Inl e
      | Inr (orig_h, orig_w) \<Rightarrow>
          (let preds1 = interpolate preds (orig_h, orig_w) ''bilinear'' False;
               preds2 = sigmoid_tensor preds1
           in case torch_max_dim1 preds2 of
                Inl e \<Rightarrow> Inl e
              | Inr (values, indices) \<Rightarrow> Inr indices))"


subsection \<open>Detection\<close>

text \<open>
  The configuration fields that \<^verbatim>\<open>postprocess_det\<close> reads, and the original images as the
  caller may pass them: a list, a tensor, or another single object (an array).
\<close>

record nms_args =
  conf :: real
  iou :: real
  agnostic_nms :: bool
  max_det :: int
  classes :: "int list option"

datatype orig_imgs = Img_list "image list" | Img_tensor image | Img_array image

type_synonym pred = "real list list"

type_synonym non_max_suppression =
  "real tensor3 \<Rightarrow> real \<Rightarrow> real \<Rightarrow> bool \<Rightarrow> int \<Rightarrow> int list option \<Rightarrow> pred list"

type_synonym scale_boxes = "nat list \<Rightarrow> real list list \<Rightarrow> nat list \<Rightarrow> real list list"

record 'names Results =
  orig_img :: image
  path :: string
  names :: 'names
  boxes :: pred

text \<open>
  \<^verbatim>\<open>pred[:, :4] = new\<close> stores \<^verbatim>\<open>new\<close> into the first four columns of every row and keeps
  the others; the shapes must agree (broadcasting is not modelled).
\<close>

definition set_box_columns :: "pred \<Rightarrow> real list list \<Rightarrow> error + pred" where
  "set_box_columns pred new =
     (if map length new = map (\<lambda>row. min 4 (length row)) pred
      then Inr (map (\<lambda>(row, b). b @ drop 4 row) (zip pred new))
      else Inl RuntimeError)"

text \<open>
  One iteration of the loop of \<^verbatim>\<open>postprocess_det\<close>:
  \<^verbatim>\<open>
  orig_img = orig_imgs[i] if isinstance(orig_imgs, list) else orig_imgs
  if not isinstance(orig_imgs, torch.Tensor):
      pred[:, :4] = ops.scale_boxes(img.shape[2:], pred[:, :4], orig_img.shape)
  path = self.batch[0]
  img_path = path[i] if isinstance(path, list) else path
  results.append(Results(orig_img=orig_img, path=img_path, names=self.model.names, boxes=pred))
  \<close>
\<close>

definition det_result ::
  "scale_boxes \<Rightarrow> 'names \<Rightarrow> paths \<times> image list \<Rightarrow> nat list \<Rightarrow> orig_imgs \<Rightarrow> nat \<times> pred
     \<Rightarrow> error + 'names Results" where
  "det_result scale_boxes model_names batch img_shape orig_imgs ip =
     (case ip of (i, pred) \<Rightarrow>
        (case (case orig_imgs of
                 Img_list l \<Rightarrow> list_get l i
               | Img_tensor t \<Rightarrow> Inr t
               | Img_array a \<Rightarrow> Inr a) of
           Inl e \<Rightarrow> Inl e
         | Inr orig \<Rightarrow>
             (case (case orig_imgs of
                      Img_tensor t \<Rightarrow> Inr pred
                    | _ \<Rightarrow>
                        set_box_columns pred
                          (scale_boxes (drop 2 img_shape) (map (take 4) pred) (shape orig))) of
                Inl e \<Rightarrow> Inl e
              | Inr pred' \<Rightarrow>
                  (case (case fst batch of
                           Path_list l \<Rightarrow> list_get l i
                         | Path_single s \<Rightarrow> Inr s) of
                     Inl e \<Rightarrow> Inl e
                   | Inr img_path \<Rightarrow>
                       Inr \<lparr>orig_img = orig, path = img_path, names = model_names,
                            boxes = pred'\<rparr>))))"

text \<open>
  \<^verbatim>\<open>
  def postprocess_det(self, preds, img, orig_imgs):
      preds = ops.non_max_suppression(preds, self.args.conf, self.args.iou,
                                      agnostic=self.args.agnostic_nms,
                                      max_det=self.args.max_det,
                                      classes=self.args.classes)
      results = []
      for i, pred in enumerate(preds):
          ...
      return results
  \<close>
  The suppression and the box rescaling of \<^verbatim>\<open>ultralytics.yolo.utils.ops\<close> are parameters.
\<close>

definition postprocess_det ::
  "non_max_suppression \<Rightarrow> scale_boxes \<Rightarrow> nms_args \<Rightarrow> 'names \<Rightarrow> paths \<times> image list
     \<Rightarrow> real tensor3 \<Rightarrow> nat list \<Rightarrow> orig_imgs \<Rightarrow> error + 'names Results list" where
  "postprocess_det non_max_suppression scale_boxes a model_names batch preds img_shape orig_imgs =
     (let preds' = non_max_suppression preds (conf a) (iou a) (agnostic_nms a) (max_det a)
                     (classes a)
      in map_raise (det_result scale_boxes model_names batch img_shape orig_imgs)
           (enumerate 0 preds'))"

section \<open>Example inputs\<close>







section \<open>Properties\<close>

lemma in_str_examples:
  "in_str ''det'' ''det''" "in_str ''seg'' ''seg''" "\<not> in_str ''det'' ''seg''"
  "\<not> in_str ''seg'' ''det''" "\<not> in_str ''det'' ''lane''" "\<not> in_str ''seg'' ''lane''"
  by simp_all

subsection \<open>Default hooks\<close>

text \<open>
  Claim C4, as amended. Of the default hooks, the dataloader construction (and the dataset
  construction) raise \<^verbatim>\<open>NotImplementedError\<close>; the default post-processing hook does not
  raise: it returns the raw prediction unchanged, for every raw prediction.
\<close>

theorem default_hooks:
  "get_dataloader dataset_path batch_size =
     Inl (NotImplementedError ''get_dataloader function not implemented for this validator'') \<and>
   build_dataset img_path =
     Inl (NotImplementedError ''build_dataset function not implemented in validator'') \<and>
   postprocess preds = Inr preds"
  by (simp add: get_dataloader_def build_dataset_def postprocess_def)

text \<open>
  The claim as stated, that the default post-processing hook raises on any raw prediction,
  fails on the raw prediction \<open>[1, 2]\<close>: the hook returns it.
\<close>

theorem postprocess_raises_counterexample:
  "postprocess [1 :: nat, 2] = Inr [1, 2] \<and> \<not> isl (postprocess [1 :: nat, 2])"
  by (simp add: postprocess_def)

subsection \<open>The segmentation-metric structures\<close>

lemma seg_metrics_comp_append:
  "seg_metrics_comp ncs (xs @ ys) acc =
     (case seg_metrics_comp ncs xs acc of Inl e \<Rightarrow> Inl e | Inr a \<Rightarrow> seg_metrics_comp ncs ys a)"
  by (induction xs arbitrary: acc) (auto simp: list_get_def split: sum.splits)

lemma seg_metrics_comp_total:
  "\<forall>p\<in>set es. fst p < length ncs \<Longrightarrow> \<exists>m. seg_metrics_comp ncs es acc = Inr m"
proof (induction es arbitrary: acc)
  case Nil
  then show ?case by simp
next
  case (Cons e es)
  obtain c n where e: "e = (c, n)" by (cases e)
  have "c < length ncs" using Cons.prems e by simp
  moreover have "\<And>a. \<exists>m. seg_metrics_comp ncs es a = Inr m"
    using Cons.IH Cons.prems by simp
  ultimately show ?case using e by (simp add: list_get_def)
qed

lemma seg_metrics_comp_keys:
  "seg_metrics_comp ncs es acc = Inr m \<Longrightarrow>
   fst ` set m = fst ` set acc \<union> {n \<in> snd ` set es. in_str ''seg'' n}"
proof (induction es arbitrary: acc)
  case Nil
  then show ?case by simp
next
  case (Cons e es)
  obtain c n where e: "e = (c, n)" by (cases e)
  show ?case
  proof (cases "in_str ''seg'' n")
    case True
    with Cons.prems e obtain nc where nc: "list_get ncs c = Inr nc"
      and r: "seg_metrics_comp ncs es (AList.update n (SegmentationMetric (nc + 1)) acc) = Inr m"
      by (auto split: sum.splits)
    from Cons.IH[OF r] True e show ?thesis by (auto simp: dom_update)
  next
    case False
    with Cons.prems e have r: "seg_metrics_comp ncs es acc = Inr m" by simp
    from Cons.IH[OF r] False e show ?thesis by auto
  qed
qed

lemma seg_metrics_comp_other:
  "seg_metrics_comp ncs es acc = Inr m \<Longrightarrow> name \<notin> snd ` set es \<Longrightarrow>
   map_of m name = map_of acc name"
proof (induction es arbitrary: acc)
  case Nil
  then show ?case by simp
next
  case (Cons e es)
  obtain c n where e: "e = (c, n)" by (cases e)
  from Cons.prems e have ne: "n \<noteq> name" and rest: "name \<notin> snd ` set es" by auto
  show ?case
  proof (cases "in_str ''seg'' n")
    case True
    with Cons.prems e obtain nc where nc: "list_get ncs c = Inr nc"
      and r: "seg_metrics_comp ncs es (AList.update n (SegmentationMetric (nc + 1)) acc) = Inr m"
      by (auto split: sum.splits)
    from Cons.IH[OF r rest] ne show ?thesis by (simp add: update_conv')
  next
    case False
    with Cons.prems e have r: "seg_metrics_comp ncs es acc = Inr m" by simp
    from Cons.IH[OF r rest] show ?thesis .
  qed
qed

lemma enumerate_split:
  "i < length xs \<Longrightarrow>
   enumerate 0 xs = enumerate 0 (take i xs) @ (i, xs ! i) # enumerate (Suc i) (drop (Suc i) xs)"
proof -
  assume i: "i < length xs"
  have "xs = take i xs @ xs ! i # drop (Suc i) xs" using i by (simp add: id_take_nth_drop)
  then have "enumerate 0 xs = enumerate 0 (take i xs @ xs ! i # drop (Suc i) xs)" by simp
  also have "\<dots> = enumerate 0 (take i xs) @ (i, xs ! i) # enumerate (Suc i) (drop (Suc i) xs)"
    using i by (simp add: enumerate_append_eq min_def)
  finally show ?thesis .
qed

lemma seg_metrics_comp_last:
  assumes r: "seg_metrics_comp ncs (enumerate 0 xs) acc = Inr m"
    and i: "i < length xs" and seg: "in_str ''seg'' (xs ! i)"
    and later: "xs ! i \<notin> set (drop (Suc i) xs)"
  shows "i < length ncs \<and> map_of m (xs ! i) = Some (SegmentationMetric (ncs ! i + 1))"
proof -
  let ?pre = "enumerate 0 (take i xs)" and ?post = "enumerate (Suc i) (drop (Suc i) xs)"
  from r enumerate_split[OF i]
  have "seg_metrics_comp ncs (?pre @ (i, xs ! i) # ?post) acc = Inr m" by simp
  then obtain a where a: "seg_metrics_comp ncs ?pre acc = Inr a"
    and s: "seg_metrics_comp ncs ((i, xs ! i) # ?post) a = Inr m"
    by (auto simp: seg_metrics_comp_append split: sum.splits)
  from s seg have il: "i < length ncs"
    and p: "seg_metrics_comp ncs ?post
              (AList.update (xs ! i) (SegmentationMetric (ncs ! i + 1)) a) = Inr m"
    by (auto simp: list_get_def split: if_splits)
  have "xs ! i \<notin> snd ` set ?post" using later by (simp flip: set_map)
  from seg_metrics_comp_other[OF p this] il show ?thesis by (simp add: update_conv')
qed

text \<open>
  Claim C9. When the class-count list covers the task names, the dictionary comprehension
  returns a dictionary whose keys are exactly the configured task names that contain
  \<^verbatim>\<open>seg\<close>, and the structure stored for a segmentation task is constructed with that
  task's declared class count plus one. (A name that occurs again later in the list is
  stored anew by the later occurrence, as a Python dictionary does.)
\<close>

theorem seg_metrics_built:
  assumes "length labels_list \<le> length nc_list"
  shows "\<exists>m. init_seg_metrics nc_list labels_list = Inr m \<and>
           fst ` set m = {n \<in> set labels_list. in_str ''seg'' n} \<and>
           (\<forall>i<length labels_list.
              in_str ''seg'' (labels_list ! i) \<and>
              labels_list ! i \<notin> set (drop (Suc i) labels_list) \<longrightarrow>
              map_of m (labels_list ! i) = Some (SegmentationMetric (nc_list ! i + 1)))"
proof -
  have "\<forall>p\<in>set (enumerate 0 labels_list). fst p < length nc_list"
    using assms by (auto simp: in_set_enumerate_eq)
  from seg_metrics_comp_total[OF this] obtain m
    where m: "seg_metrics_comp nc_list (enumerate 0 labels_list) [] = Inr m" by blast
  have keys: "fst ` set m = {n \<in> set labels_list. in_str ''seg'' n}"
    using seg_metrics_comp_keys[OF m] by (simp flip: set_map)
  show ?thesis
    using m keys seg_metrics_comp_last[OF m] by (auto simp: init_seg_metrics_def)
qed

theorem seg_metrics_built_witness:
  "length [''det'', ''seg''] \<le> length [3, 1 :: int] \<and>
   init_seg_metrics [3, 1] [''det'', ''seg''] = Inr [(''seg'', SegmentationMetric 2)] \<and>
   map_of [(''seg'', SegmentationMetric 2)] ([''det'', ''seg''] ! 1)
     = Some (SegmentationMetric ([3, 1] ! 1 + 1))"
proof -
  have h: "length [''det'', ''seg''] \<le> length [3, 1 :: int]" by simp
  have e: "init_seg_metrics [3, 1] [''det'', ''seg''] = Inr [(''seg'', SegmentationMetric 2)]"
    by (simp add: init_seg_metrics_def list_get_def)
  from seg_metrics_built[OF h] e h show ?thesis by auto
qed

subsection \<open>The dispatch of one batch\<close>

text \<open>
  When every configured name contains \<^verbatim>\<open>det\<close> or \<^verbatim>\<open>seg\<close>, the post-processing loop
  appends one slice per raw output.
\<close>

lemma postprocess_loop_known:
  "\<forall>p\<in>set es. fst p < length labels \<and>
       (in_str ''det'' (labels ! fst p) \<or> in_str ''seg'' (labels ! fst p)) \<Longrightarrow>
   \<exists>post. postprocess_loop pd ps labels es acc = Inr (acc @ post) \<and> length post = length es"
proof (induction es arbitrary: acc)
  case Nil
  then show ?case by simp
next
  case (Cons e es)
  obtain i r where e: "e = (i, r)" by (cases e)
  from Cons.prems e have i: "i < length labels"
    and k: "in_str ''det'' (labels ! i) \<or> in_str ''seg'' (labels ! i)" by auto
  let ?s = "if in_str ''det'' (labels ! i) then pd r else ps r i"
  from Cons.prems have "\<forall>p\<in>set es. fst p < length labels \<and>
       (in_str ''det'' (labels ! fst p) \<or> in_str ''seg'' (labels ! fst p))" by simp
  from Cons.IH[OF this, of "acc @ [?s]"] obtain post
    where "postprocess_loop pd ps labels es (acc @ [?s]) = Inr ((acc @ [?s]) @ post)"
      and "length post = length es" by blast
  then have "postprocess_loop pd ps labels (e # es) acc = Inr (acc @ (?s # post)) \<and>
             length (?s # post) = length (e # es)"
    using e i k by (auto simp: list_get_def)
  then show ?case by blast
qed

text \<open>
  Claim C1 fails on the code. For the task names \<^verbatim>\<open>['lane', 'det']\<close> the post-processing
  loop appends nothing for \<^verbatim>\<open>lane\<close>: the list of slices has one entry for two tasks, and
  the metric update, which reads the slice at the task's index, raises \<^verbatim>\<open>IndexError\<close> at
  the detection task. For \<^verbatim>\<open>['lane', 'det', 'seg']\<close> the update hands the segmentation
  slice to the detection task and then raises at the segmentation task.
\<close>

theorem dispatch_drops_unknown_kind:
  "postprocess_multi pd ps [''lane'', ''det''] [r0, r1] = Inr [pd r1] \<and>
   length [pd r1] \<noteq> length [''lane'', ''det''] \<and>
   update_metrics_multi [''lane'', ''det''] [pd r1] [b0, b1] = ([], Some IndexError) \<and>
   postprocess_multi pd ps [''lane'', ''det'', ''seg''] [r0, r1, r2] = Inr [pd r1, ps r2 2] \<and>
   update_metrics_multi [''lane'', ''det'', ''seg''] [pd r1, ps r2 2] [b0, b1, b2]
     = ([Update_det (ps r2 2) b1 ''det''], Some IndexError)"
  by (simp add: postprocess_multi_def update_metrics_multi_def list_get_def numeral_2_eq_2)

subsection \<open>What a training run returns\<close>

lemma results_loop_nth:
  "results_loop stats llv sr (enumerate k xs) acc = Inr rs \<Longrightarrow>
   length rs = length acc + length xs \<and> take (length acc) rs = acc \<and>
   (\<forall>i<length xs. task_results stats llv sr (k + i) (xs ! i) = Inr (rs ! (length acc + i)))"
proof (induction xs arbitrary: k acc)
  case Nil
  then show ?case by simp
next
  case (Cons x xs)
  from Cons.prems obtain d where d: "task_results stats llv sr k x = Inr d"
    and r: "results_loop stats llv sr (enumerate (Suc k) xs) (acc @ [d]) = Inr rs"
    by (auto split: sum.splits)
  from Cons.IH[OF r] have len: "length rs = length acc + length (x # xs)"
    and tk: "take (Suc (length acc)) rs = acc @ [d]"
    and nth: "\<forall>i<length xs. task_results stats llv sr (Suc k + i) (xs ! i)
                 = Inr (rs ! (Suc (length acc) + i))"
    by simp_all
  from tk have tk': "take (length acc) rs = acc"
  proof -
    have "take (length acc) rs = take (length acc) (take (Suc (length acc)) rs)"
      by (simp add: min_def)
    then show ?thesis by (simp add: tk)
  qed
  from tk len have d': "rs ! length acc = d"
  proof -
    have "rs ! length acc = take (Suc (length acc)) rs ! length acc" by simp
    then show ?thesis by (simp add: tk)
  qed
  have "\<forall>i<length (x # xs). task_results stats llv sr (k + i) ((x # xs) ! i)
           = Inr (rs ! (length acc + i))"
  proof (intro allI impI)
    fix i assume "i < length (x # xs)"
    then show "task_results stats llv sr (k + i) ((x # xs) ! i) = Inr (rs ! (length acc + i))"
      using d d' nth by (cases i) auto
  qed
  with len tk' show ?case by blast
qed

lemma finalize_multi_training_nth:
  assumes "finalize_multi_training labels stats llv sr = Inr rs"
  shows "length rs = length labels"
    and "i < length labels \<Longrightarrow> task_results stats llv sr i (labels ! i) = Inr (rs ! i)"
  using results_loop_nth[of stats llv sr 0 labels "[]" rs] assms
  by (simp_all add: finalize_multi_training_def)

lemma fitness_fallback_entry:
  assumes "map_of seg_result label_name = Some meters"
    and "map fst meters = [''pixacc'', ''subacc'', ''IoU'', ''mIoU'']"
  shows "\<exists>iou miou. map_of meters ''IoU'' = Some iou \<and> map_of meters ''mIoU'' = Some miou \<and>
           snd (meters ! 2) = iou \<and> snd (meters ! 3) = miou \<and>
           fitness_fallback seg_result label_name = Inr [(''fitness'', avg iou + avg miou)]"
proof -
  from assms(2) obtain m0 m1 m2 m3 where
    m: "meters = [(''pixacc'', m0), (''subacc'', m1), (''IoU'', m2), (''mIoU'', m3)]"
    by (auto simp: map_eq_Cons_conv)
  show ?thesis using assms(1)
    by (simp add: m fitness_fallback_def dict_get_def list_get_def numeral_2_eq_2 numeral_3_eq_3)
qed

text \<open>
  The segmentation result structure built at the start of a multi-task run holds, for
  exactly the task names that contain \<^verbatim>\<open>seg\<close>, the four running means in the order
  \<^verbatim>\<open>pixacc\<close>, \<^verbatim>\<open>subacc\<close>, \<^verbatim>\<open>IoU\<close>, \<^verbatim>\<open>mIoU\<close>; the handler of a failed merge raises
  \<^verbatim>\<open>KeyError\<close> for a task without an entry.
\<close>

lemma seg_result_comp_lookup:
  "map_of (seg_result_comp es acc) name =
     (if name \<in> snd ` set es \<and> in_str ''seg'' name then Some seg_result_entry
      else map_of acc name)"
proof (induction es arbitrary: acc)
  case Nil
  then show ?case by simp
next
  case (Cons e es)
  obtain c n where e: "e = (c, n)" by (cases e)
  show ?case by (auto simp: e Cons.IH update_conv')
qed

lemma init_seg_result_lookup:
  "map_of (init_seg_result labels_list) name =
     (if name \<in> set labels_list \<and> in_str ''seg'' name then Some seg_result_entry else None)"
  by (simp add: init_seg_result_def seg_result_comp_lookup flip: set_map)

lemma seg_result_entry_keys:
  "map fst seg_result_entry = [''pixacc'', ''subacc'', ''IoU'', ''mIoU'']"
  by (simp add: seg_result_entry_def)

lemma fitness_fallback_no_entry:
  assumes "try_merge stats label_loss_items_val i label_name = Inl e"
    and "map_of seg_result label_name = None"
  shows "task_results stats label_loss_items_val seg_result i label_name
           = Inl (KeyError label_name)"
  using assms by (simp add: task_results_def fitness_fallback_def dict_get_def)

text \<open>
  Claim C2. In the multi-task training branch, for a task whose merge of statistics and
  loss entries raises, and whose segmentation result structure holds its four running
  means (as built at the start of the run), the error is swallowed and the task's result
  is exactly the one-key mapping \<^verbatim>\<open>{'fitness': v}\<close>, where \<open>v\<close> is the sum of the third and
  fourth running means, which are the ones stored under \<^verbatim>\<open>IoU\<close> and \<^verbatim>\<open>mIoU\<close>; this is
  the entry of the returned list at the task's index.
\<close>

theorem fallback_fitness:
  assumes merge_fails: "try_merge stats label_loss_items_val i label_name = Inl e"
    and entry: "map_of seg_result label_name = Some meters"
    and keys: "map fst meters = [''pixacc'', ''subacc'', ''IoU'', ''mIoU'']"
  shows "\<exists>iou miou.
           map_of meters ''IoU'' = Some iou \<and> map_of meters ''mIoU'' = Some miou \<and>
           snd (meters ! 2) = iou \<and> snd (meters ! 3) = miou \<and>
           task_results stats label_loss_items_val seg_result i label_name
             = Inr [(''fitness'', avg iou + avg miou)] \<and>
           (\<forall>labels_list results_list.
              finalize_multi_training labels_list stats label_loss_items_val seg_result
                = Inr results_list \<and>
              i < length labels_list \<and> labels_list ! i = label_name \<longrightarrow>
              results_list ! i = [(''fitness'', avg iou + avg miou)])"
proof -
  from fitness_fallback_entry[OF entry keys] obtain iou miou where
    a: "map_of meters ''IoU'' = Some iou" "map_of meters ''mIoU'' = Some miou"
       "snd (meters ! 2) = iou" "snd (meters ! 3) = miou"
    and f: "fitness_fallback seg_result label_name = Inr [(''fitness'', avg iou + avg miou)]"
    by blast
  have t: "task_results stats label_loss_items_val seg_result i label_name
             = Inr [(''fitness'', avg iou + avg miou)]"
    using merge_fails f by (simp add: task_results_def)
  have "\<forall>labels_list results_list.
              finalize_multi_training labels_list stats label_loss_items_val seg_result
                = Inr results_list \<and>
              i < length labels_list \<and> labels_list ! i = label_name \<longrightarrow>
              results_list ! i = [(''fitness'', avg iou + avg miou)]"
    using finalize_multi_training_nth(2) t by fastforce
  with a t show ?thesis by blast
qed

theorem fallback_fitness_witness:
  "try_merge (Stats_list []) (\<lambda>i name. Inr []) 0 ''seg'' = Inl IndexError \<and>
   task_results (Stats_list []) (\<lambda>i name. Inr [])
     [(''seg'', [(''pixacc'', \<lparr>avg = 0.9, am_sum = 1.8, am_count = 2\<rparr>),
                 (''subacc'', \<lparr>avg = 0.8, am_sum = 1.6, am_count = 2\<rparr>),
                 (''IoU'', \<lparr>avg = 0.25, am_sum = 0.5, am_count = 2\<rparr>),
                 (''mIoU'', \<lparr>avg = 0.5, am_sum = 1, am_count = 2\<rparr>)])] 0 ''seg''
     = Inr [(''fitness'', 0.75)]"
proof -
  let ?meters = "[(''pixacc'', \<lparr>avg = 0.9, am_sum = 1.8, am_count = 2\<rparr>),
                 (''subacc'', \<lparr>avg = 0.8, am_sum = 1.6, am_count = 2\<rparr>),
                 (''IoU'', \<lparr>avg = 0.25, am_sum = 0.5, am_count = 2\<rparr>),
                 (''mIoU'', \<lparr>avg = 0.5, am_sum = 1, am_count = (2::real)\<rparr>)]"
  have h1: "try_merge (Stats_list []) (\<lambda>i name. Inr []) 0 ''seg'' = Inl IndexError"
    by (simp add: try_merge_def list_get_def)
  have h2: "map_of [(''seg'', ?meters)] ''seg'' = Some ?meters" by simp
  have h3: "map fst ?meters = [''pixacc'', ''subacc'', ''IoU'', ''mIoU'']" by simp
  from fallback_fitness[OF h1 h2 h3] h1 show ?thesis
    by (auto simp: numeral_2_eq_2 numeral_3_eq_3)
qed

text \<open>
  Claim C3 fails on the code. In a multi-task training run over the tasks \<^verbatim>\<open>det\<close> and
  \<^verbatim>\<open>seg\<close>, where the merge raises for \<^verbatim>\<open>seg\<close> and the running means of \<^verbatim>\<open>IoU\<close> and \<^verbatim>\<open>mIoU\<close>
  are \<open>0.123456\<close> and \<open>0.2\<close>, the values of the detection task are rounded to five
  decimals, and the fitness returned for the segmentation task is \<open>0.323456\<close>, which is not
  rounded (rounding gives \<open>0.32346\<close>).
\<close>

theorem fallback_not_rounded:
  "finalize \<lparr>task = ''multi'', save_json = False, plots = False\<rparr> True [''det'', ''seg'']
     ''runs/val''
     (Stats_list [[(''fitness'', 0.5)], [(''mIoU'', 0.2)]])
     (\<lambda>i name. if name = ''det'' then Inr [(''val/box_loss'', 1.234567)]
                else Inl (KeyError name))
     (Inl TypeError)
     [(''seg'', [(''pixacc'', \<lparr>avg = 0.9, am_sum = 0.9, am_count = 1\<rparr>),
                 (''subacc'', \<lparr>avg = 0.8, am_sum = 0.8, am_count = 1\<rparr>),
                 (''IoU'', \<lparr>avg = 0.123456, am_sum = 0.123456, am_count = 1\<rparr>),
                 (''mIoU'', \<lparr>avg = 0.2, am_sum = 0.2, am_count = 1\<rparr>)])]
     [] Inr
   = ([], Inr (Ret_results_list
                 [[(''fitness'', 0.5), (''val/box_loss'', 1.23457)], [(''fitness'', 0.323456)]]))
   \<and> py_round 0.323456 5 = 0.32346 \<and> py_round 0.323456 5 \<noteq> 0.323456"
  by (simp add: finalize_def lift_ret_def finalize_multi_training_def task_results_def
      try_merge_def fitness_fallback_def dict_get_def list_get_def round_items_def
      dict_merge_def py_round_def Let_def numeral_2_eq_2 numeral_3_eq_3)

subsection \<open>Stage timers\<close>

lemma time_batches_total:
  "time_batches (p0, p1, p2, p3) ds =
     (p0\<lparr>prof_t := prof_t p0 + (\<Sum>d\<leftarrow>ds. fst d)\<rparr>,
      p1\<lparr>prof_t := prof_t p1 + (\<Sum>d\<leftarrow>ds. fst (snd d))\<rparr>,
      p2\<lparr>prof_t := prof_t p2 + (\<Sum>d\<leftarrow>ds. fst (snd (snd d)))\<rparr>,
      p3\<lparr>prof_t := prof_t p3 + (\<Sum>d\<leftarrow>ds. snd (snd (snd d)))\<rparr>)"
proof (induction ds arbitrary: p0 p1 p2 p3)
  case Nil
  then show ?case by simp
next
  case (Cons d ds)
  obtain d0 d1 d2 d3 where d: "d = (d0, d1, d2, d3)" by (cases d)
  show ?case by (simp add: d Cons.IH Profile_exit_def add.assoc)
qed

lemma speed_of_value:
  assumes "0 < n_images" and "multi \<longrightarrow> 0 < n_tasks"
  shows "speed_of multi n_images n_tasks x =
     Inr (if multi then prof_t x / real n_images * 1000 / real n_tasks
          else prof_t x / real n_images * 1000)"
  using assms by (auto simp: speed_of_def py_div_def)

text \<open>
  Claim C5. With a dataset that is not empty (and, in a multi-task run, at least one task),
  each of the four speed entries is the timer's accumulated time, which is the sum of the
  stage's durations over the batches, divided by the number of images of the dataset and
  multiplied by 1000; in a multi-task run it is then divided by the number of tasks, and
  otherwise it is not.
\<close>

theorem speed_normalized:
  assumes "0 < n_images" and "multi \<longrightarrow> 0 < n_tasks"
  shows "let ms = (\<lambda>total. if multi then total / real n_images * 1000 / real n_tasks
                            else total / real n_images * 1000)
         in finalize_speed multi n_images n_tasks (p0, p1, p2, p3) =
              Inr [(''preprocess'', ms (prof_t p0)), (''inference'', ms (prof_t p1)),
                   (''loss'', ms (prof_t p2)), (''postprocess'', ms (prof_t p3))] \<and>
            finalize_speed multi n_images n_tasks (time_batches dt_new durations) =
              Inr [(''preprocess'', ms (\<Sum>d\<leftarrow>durations. fst d)),
                   (''inference'', ms (\<Sum>d\<leftarrow>durations. fst (snd d))),
                   (''loss'', ms (\<Sum>d\<leftarrow>durations. fst (snd (snd d)))),
                   (''postprocess'', ms (\<Sum>d\<leftarrow>durations. snd (snd (snd d))))]"
  using assms
  by (simp add: finalize_speed_def speed_of_value speed_keys_def dt_new_def time_batches_total
      Profile_new_def)

theorem speed_normalized_witness:
  "(0::nat) < 8 \<and> (0::nat) < 2 \<and>
   finalize_speed True 8 2
     (time_batches dt_new [(0.1, 0.4, 0, 0.2), (0.1, 0.4, 0, 0.2)])
   = Inr [(''preprocess'', 12.5), (''inference'', 50), (''loss'', 0), (''postprocess'', 25)] \<and>
   finalize_speed False 8 2
     (time_batches dt_new [(0.1, 0.4, 0, 0.2), (0.1, 0.4, 0, 0.2)])
   = Inr [(''preprocess'', 25), (''inference'', 100), (''loss'', 0), (''postprocess'', 50)]"
proof -
  have h1: "(0::nat) < 8" by simp
  have h2: "True \<longrightarrow> (0::nat) < 2" by simp
  have h3: "False \<longrightarrow> (0::nat) < 2" by simp
  from speed_normalized[OF h1 h2, of Profile_new Profile_new Profile_new Profile_new
         "[(0.1, 0.4, 0, 0.2), (0.1, 0.4, 0, 0.2)]"]
       speed_normalized[OF h1 h3, of Profile_new Profile_new Profile_new Profile_new
         "[(0.1, 0.4, 0, 0.2), (0.1, 0.4, 0, 0.2)]"]
  show ?thesis by (simp add: Let_def)
qed

subsection \<open>The JSON export file\<close>





lemma pred_to_json_example:
  "pred_to_json (\<lambda>f. ''000042'') (\<lambda>b. [15, 25, 10, 10]) [1, 2, 3] []
     [[10, 20, 20, 30, 0.912345, 2]] ''images/000042.jpg''
   = Inr [\<lparr>image_id = Id_int 42, category_id = 3, bbox = [10, 20, 10, 10], score = 0.91234\<rparr>]"
  by (simp add: pred_to_json_def isnumeric_def int_of_str_def json_row_def list_get_def
      list_get_int_def py_int_def py_round_def Let_def)



subsection \<open>Segmentation post-processing\<close>

lemma sigmoid_less_iff [simp]: "sigmoid a < sigmoid b \<longleftrightarrow> a < b"
proof -
  have pa: "0 < 1 + exp (- a)" and pb: "0 < 1 + exp (- b)"
    by (simp_all add: add_pos_pos)
  have "sigmoid a < sigmoid b \<longleftrightarrow> 1 + exp (- b) < 1 + exp (- a)"
    unfolding sigmoid_def using pa pb by (simp add: divide_simps)
  then show ?thesis by simp
qed










subsection \<open>Detection post-processing\<close>








end
